theory Spec2Isabelle
  imports Main
begin

section \<open>Arbitrary-precision integers of the client (bn.js)\<close>

text \<open>
  Every amount handled by \<^verbatim>\<open>AmmImpl\<close> is a \<^verbatim>\<open>BN\<close> of the bn.js library: a signed
  integer of unbounded size, modelled as \<^typ>\<open>int\<close>. \<^verbatim>\<open>mul\<close>, \<^verbatim>\<open>add\<close> and \<^verbatim>\<open>sub\<close> are
  the ring operations. The operations that can throw are modelled with a result type:
  \<^item> \<^verbatim>\<open>a.div(b)\<close> asserts that \<^verbatim>\<open>b\<close> is not zero and truncates the quotient towards
    zero;
  \<^item> \<^verbatim>\<open>a.divRound(b)\<close> asserts that \<^verbatim>\<open>b\<close> is not zero and takes the truncated
    quotient and the remainder, which has the sign of the dividend. It returns the
    quotient when the remainder is zero. Otherwise it subtracts the divisor from the
    remainder if the quotient is negative, compares the outcome with the divisor shifted
    right by one bit (the shift works on the magnitude and keeps the sign), returns the
    quotient when the outcome is smaller, or equal with an odd divisor, and else moves
    the quotient one unit away from zero. On non-negative operands this rounds to the
    nearest integer, halves upwards; it is no ceiling. On a negative dividend with a
    positive divisor it returns the truncated quotient;
  \<^item> \<^verbatim>\<open>a.toNumber()\<close> asserts that the magnitude fits 53 bits.
\<close>

datatype message =
    ERROR_INVALID_MINT
  | Literal string

datatype error =
    InvariantFailed message   \<comment> \<open>\<^verbatim>\<open>invariant(cond, message)\<close> with a false condition\<close>
  | AssertionFailed           \<comment> \<open>an assertion inside bn.js\<close>
  | CollaboratorFailed        \<comment> \<open>an exception of a function that is not part of this module\<close>

type_synonym 'a result = "error + 'a"

definition bind_result :: "'a result \<Rightarrow> ('a \<Rightarrow> 'b result) \<Rightarrow> 'b result" where
  "bind_result r f = (case r of Inl e \<Rightarrow> Inl e | Inr v \<Rightarrow> f v)"

definition of_collaborator :: "'a option \<Rightarrow> 'a result" where
  "of_collaborator r = (case r of None \<Rightarrow> Inl CollaboratorFailed | Some v \<Rightarrow> Inr v)"

definition bn_quot :: "int \<Rightarrow> int \<Rightarrow> int" where
  "bn_quot a b = sgn a * sgn b * (\<bar>a\<bar> div \<bar>b\<bar>)"

definition bn_div :: "int \<Rightarrow> int \<Rightarrow> int result" where
  "bn_div a b = (if b = 0 then Inl AssertionFailed else Inr (bn_quot a b))"

definition bn_divRound :: "int \<Rightarrow> int \<Rightarrow> int result" where
  "bn_divRound a b =
     (if b = 0 then Inl AssertionFailed
      else
        let q = bn_quot a b;
            r = a - q * b
        in if r = 0 then Inr q
           else
             let r' = (if q < 0 then r - b else r);
                 half = sgn b * (\<bar>b\<bar> div 2);
                 r2 = \<bar>b\<bar> mod 2
             in if r' < half \<or> (r2 = 1 \<and> r' = half) then Inr q
                else Inr (if q < 0 then q - 1 else q + 1))"

definition bn_toNumber :: "int \<Rightarrow> int result" where
  "bn_toNumber a = (if \<bar>a\<bar> < 2 ^ 53 then Inr a else Inl AssertionFailed)"

section \<open>Proportional share conversion\<close>

text \<open>
  \<^verbatim>\<open>getShareByAmount(amount, tokenAmount, lpSupply, roundUp?)\<close> and
  \<^verbatim>\<open>getAmountByShare(amount, tokenAmount, lpSupply, roundUp?)\<close>. The optional flag is
  \<open>None\<close> when the caller leaves it out, which the conditional treats as false.
\<close>

definition truthy :: "bool option \<Rightarrow> bool" where
  "truthy b = (case b of None \<Rightarrow> False | Some v \<Rightarrow> v)"

definition getShareByAmount :: "int \<Rightarrow> int \<Rightarrow> int \<Rightarrow> bool option \<Rightarrow> int result" where
  "getShareByAmount amount tokenAmount lpSupply roundUp =
     (if tokenAmount = 0 then Inr 0
      else if truthy roundUp then bn_divRound (amount * lpSupply) tokenAmount
      else bn_div (amount * lpSupply) tokenAmount)"

definition getAmountByShare :: "int \<Rightarrow> int \<Rightarrow> int \<Rightarrow> bool option \<Rightarrow> int result" where
  "getAmountByShare amount tokenAmount lpSupply roundUp =
     (if lpSupply = 0 then Inr 0
      else if truthy roundUp then bn_divRound (amount * tokenAmount) lpSupply
      else bn_div (amount * tokenAmount) lpSupply)"

section \<open>Data model of \<^verbatim>\<open>AmmImpl\<close>\<close>

text \<open>
  A public key is identified with its base58 string, so that
  \<^verbatim>\<open>new PublicKey(tokenInfo.address)\<close> is the address itself and \<^verbatim>\<open>equals\<close> is
  equality. Only the fields read by the quote functions are kept. The vault state and the
  depeg accounts belong to collaborators and stay abstract (\<open>'v\<close>, \<open>'d\<close>), as does the
  price impact (\<open>'p\<close>), a decimal number computed outside this module.
\<close>

type_synonym pubkey = string

record pool_fees =
  tradeFeeNumerator :: int
  tradeFeeDenominator :: int
  ownerTradeFeeNumerator :: int
  ownerTradeFeeDenominator :: int

record token_multiplier =
  tokenAMultiplier :: int
  tokenBMultiplier :: int

datatype curve_type =
    ConstantProduct
  | Stable (amp: int) (tokenMultiplier: token_multiplier)

datatype trade_direction = AToB | BToA

record pool_state =
  tokenAMint :: pubkey
  tokenBMint :: pubkey
  fees :: pool_fees
  curveType :: curve_type

record pool_information =
  tokenAAmount :: int
  tokenBAmount :: int

record accounts_info =
  currentTime :: int
  poolVaultALp :: int
  poolVaultBLp :: int
  vaultALpSupply :: int
  vaultBLpSupply :: int
  vaultAReserve :: int
  vaultBReserve :: int
  poolLpSupply :: int

record token_info =
  address :: pubkey

text \<open>
  The curve object held in \<^verbatim>\<open>this.swapCurve\<close>. Its class is defined in the curve
  module, which is not part of the sources at hand: the four operations the quotes call
  are fields, \<open>None\<close> standing for an exception thrown by the curve.
\<close>

record swap_curve =
  computeD :: "int \<Rightarrow> int \<Rightarrow> int option"
  computeInAmount :: "int \<Rightarrow> int \<Rightarrow> int \<Rightarrow> trade_direction \<Rightarrow> int option"
  computeImbalanceDeposit :: "int \<Rightarrow> int \<Rightarrow> int \<Rightarrow> int \<Rightarrow> int \<Rightarrow> pool_fees \<Rightarrow> int option"
  computeWithdrawOne :: "int \<Rightarrow> int \<Rightarrow> int \<Rightarrow> int \<Rightarrow> pool_fees \<Rightarrow> trade_direction \<Rightarrow> int option"

record ('v, 'd) amm_impl =
  tokenA :: token_info
  tokenB :: token_info
  poolState :: pool_state
  poolInfo :: pool_information
  vaultA :: 'v
  vaultB :: 'v
  accountsInfo :: accounts_info
  swapCurve :: swap_curve
  depegAccounts :: 'd

text \<open>The argument object that \<^verbatim>\<open>getSwapQuote\<close> builds for \<^verbatim>\<open>calculateSwapQuote\<close>.\<close>

record ('v, 'd) swap_quote_param =
  param_currentTime :: int
  param_poolState :: pool_state
  param_depegAccounts :: 'd
  param_poolVaultALp :: int
  param_poolVaultBLp :: int
  param_vaultA :: 'v
  param_vaultB :: 'v
  param_vaultALpSupply :: int
  param_vaultBLpSupply :: int
  param_vaultAReserve :: int
  param_vaultBReserve :: int

text \<open>
  The functions and the constant imported from the utility module, the constants module
  and the vault package, none of which is among the sources: they are parameters of the
  model. \<open>None\<close> stands for an exception. \<^verbatim>\<open>getMaxAmountWithSlippage\<close> divides by a
  constant and \<^verbatim>\<open>calculateWithdrawableAmount\<close> is a pure function of the vault
  collaborator, so both are total.
\<close>

record ('v, 'd, 'p) collaborators =
  calculateSwapQuote :: "pubkey \<Rightarrow> int \<Rightarrow> ('v, 'd) swap_quote_param \<Rightarrow> (int \<times> int \<times> 'p) option"
  calculateMaxSwapOutAmount ::
    "pubkey \<Rightarrow> pubkey \<Rightarrow> pubkey \<Rightarrow> int \<Rightarrow> int \<Rightarrow> int \<Rightarrow> int \<Rightarrow> int option"
  computeActualDepositAmount :: "int \<Rightarrow> int \<Rightarrow> int \<Rightarrow> int \<Rightarrow> int \<Rightarrow> int option"
  getMaxAmountWithSlippage :: "int \<Rightarrow> int \<Rightarrow> int"
  calculateWithdrawableAmount :: "int \<Rightarrow> 'v \<Rightarrow> int"
  UNLOCK_AMOUNT_BUFFER :: int

record 'p swap_quote =
  swapInAmount :: int
  swapOutAmount :: int
  minSwapOutAmount :: int
  fee :: int
  priceImpact :: 'p

record deposit_quote =
  poolTokenAmountOut :: int
  minPoolTokenAmountOut :: int
  tokenAInAmount :: int
  tokenBInAmount :: int

record withdraw_quote =
  poolTokenAmountIn :: int
  tokenAOutAmount :: int
  tokenBOutAmount :: int
  minTokenAOutAmount :: int
  minTokenBOutAmount :: int

section \<open>Slippage\<close>

text \<open>
  Modelled from the spec: \<^verbatim>\<open>getMinAmountWithSlippage\<close> is imported from the utility
  module, which is not among the sources. The specification gives the minimum as
  \<open>amount * (10000 - slippageBps) / 10000\<close> in integer arithmetic, the slippage being
  a number of basis points; the division is the truncating one of \<^verbatim>\<open>BN\<close>, by a
  constant, so it cannot fail.
\<close>

definition getMinAmountWithSlippage :: "int \<Rightarrow> int \<Rightarrow> int" where
  "getMinAmountWithSlippage amount slippageBps = bn_quot (amount * (10000 - slippageBps)) 10000"

section \<open>Derived properties of the pool\<close>

definition isStablePool :: "('v, 'd) amm_impl \<Rightarrow> bool" where
  "isStablePool this = (case curveType (poolState this) of ConstantProduct \<Rightarrow> False | Stable _ _ \<Rightarrow> True)"

definition depegToken :: "('v, 'd) amm_impl \<Rightarrow> token_info option result" where
  "depegToken this =
     (case curveType (poolState this) of
        ConstantProduct \<Rightarrow> Inr None
      | Stable _ multiplier \<Rightarrow>
          let tokenABalance = tokenAAmount (poolInfo this) * tokenAMultiplier multiplier;
              tokenBBalance = tokenBAmount (poolInfo this) * tokenBMultiplier multiplier;
              totalTokenBalance = tokenABalance + tokenBBalance
          in if totalTokenBalance = 0 then Inr None
             else
               bind_result (bn_div (tokenAAmount (poolInfo this) * 2) totalTokenBalance) (\<lambda>qa.
               bind_result (bn_div (tokenBAmount (poolInfo this) * 2) totalTokenBalance) (\<lambda>qb.
                 let isTokenADepeg = (qa * 100 > 95);
                     isTokenBDepeg = (qb * 100 > 95)
                 in if isTokenADepeg then Inr (Some (tokenA this))
                    else if isTokenBDepeg then Inr (Some (tokenB this))
                    else Inr None)))"

section \<open>Fees and the vault round trip\<close>

definition calculateAdminTradingFee :: "('v, 'd) amm_impl \<Rightarrow> int \<Rightarrow> int result" where
  "calculateAdminTradingFee this amount =
     bn_div (amount * ownerTradeFeeNumerator (fees (poolState this)))
            (ownerTradeFeeDenominator (fees (poolState this)))"

definition calculateTradingFee :: "('v, 'd) amm_impl \<Rightarrow> int \<Rightarrow> int result" where
  "calculateTradingFee this amount =
     bn_div (amount * tradeFeeNumerator (fees (poolState this)))
            (tradeFeeDenominator (fees (poolState this)))"

definition computeActualInAmount ::
  "int \<Rightarrow> int \<Rightarrow> int \<Rightarrow> int \<Rightarrow> int \<Rightarrow> int \<Rightarrow> int \<Rightarrow> int \<Rightarrow> (int \<times> int) result" where
  "computeActualInAmount poolTokenAmount poolLpSupply' poolVaultALp' poolVaultBLp'
       vaultALpSupply' vaultBLpSupply' vaultAWithdrawableAmount vaultBWithdrawableAmount =
     bind_result (getShareByAmount poolTokenAmount poolLpSupply' poolVaultALp' (Some True)) (\<lambda>aVaultLpMinted.
     bind_result (getShareByAmount poolTokenAmount poolLpSupply' poolVaultBLp' (Some True)) (\<lambda>bVaultLpMinted.
     bind_result (getAmountByShare aVaultLpMinted vaultAWithdrawableAmount vaultALpSupply' (Some True)) (\<lambda>actualTokenAInAmount.
     bind_result (getAmountByShare bVaultLpMinted vaultBWithdrawableAmount vaultBLpSupply' (Some True)) (\<lambda>actualTokenBInAmount.
       Inr (actualTokenAInAmount, actualTokenBInAmount)))))"

section \<open>Swap quotes\<close>

definition getSwapQuote ::
  "('v, 'd, 'p) collaborators \<Rightarrow> ('v, 'd) amm_impl \<Rightarrow> pubkey \<Rightarrow> int \<Rightarrow> int \<Rightarrow> 'p swap_quote result" where
  "getSwapQuote ext this inTokenMint inAmountLamport slippage =
     bind_result (bn_toNumber (currentTime (accountsInfo this))) (\<lambda>now.
     bind_result (of_collaborator (calculateSwapQuote ext inTokenMint inAmountLamport
         \<lparr> param_currentTime = now,
           param_poolState = poolState this,
           param_depegAccounts = depegAccounts this,
           param_poolVaultALp = poolVaultALp (accountsInfo this),
           param_poolVaultBLp = poolVaultBLp (accountsInfo this),
           param_vaultA = vaultA this,
           param_vaultB = vaultB this,
           param_vaultALpSupply = vaultALpSupply (accountsInfo this),
           param_vaultBLpSupply = vaultBLpSupply (accountsInfo this),
           param_vaultAReserve = vaultAReserve (accountsInfo this),
           param_vaultBReserve = vaultBReserve (accountsInfo this) \<rparr>))
       (\<lambda>(amountOut, fee', priceImpact').
          Inr \<lparr> swapInAmount = inAmountLamport,
                swapOutAmount = amountOut,
                minSwapOutAmount = getMinAmountWithSlippage amountOut slippage,
                fee = fee',
                priceImpact = priceImpact' \<rparr>))"

definition getMaxSwapOutAmount ::
  "('v, 'd, 'p) collaborators \<Rightarrow> ('v, 'd) amm_impl \<Rightarrow> pubkey \<Rightarrow> int result" where
  "getMaxSwapOutAmount ext this tokenMint =
     of_collaborator (calculateMaxSwapOutAmount ext tokenMint
        (tokenAMint (poolState this)) (tokenBMint (poolState this))
        (tokenAAmount (poolInfo this)) (tokenBAmount (poolInfo this))
        (vaultAReserve (accountsInfo this)) (vaultBReserve (accountsInfo this)))"

definition getMaxSwapInAmount ::
  "('v, 'd, 'p) collaborators \<Rightarrow> ('v, 'd) amm_impl \<Rightarrow> pubkey \<Rightarrow> int result" where
  "getMaxSwapInAmount ext this tokenMint =
     (if \<not> (tokenMint = tokenAMint (poolState this) \<or> tokenMint = tokenBMint (poolState this))
      then Inl (InvariantFailed ERROR_INVALID_MINT)
      else
        let (outTokenMint, swapSourceAmount, swapDestAmount, tradeDirection) =
              (if tokenMint = tokenAMint (poolState this)
               then (tokenBMint (poolState this), tokenAAmount (poolInfo this),
                     tokenBAmount (poolInfo this), AToB)
               else (tokenAMint (poolState this), tokenBAmount (poolInfo this),
                     tokenAAmount (poolInfo this), BToA))
        in bind_result (getMaxSwapOutAmount ext this outTokenMint) (\<lambda>maxOutAmount0.
           let maxOutAmount = (if maxOutAmount0 = swapDestAmount then maxOutAmount0 - 1
                               else maxOutAmount0)
           in bind_result (of_collaborator (computeInAmount (swapCurve this) maxOutAmount
                              swapSourceAmount swapDestAmount tradeDirection)) (\<lambda>maxInAmount.
              bind_result (calculateAdminTradingFee this maxInAmount) (\<lambda>adminFee.
              bind_result (calculateTradingFee this maxInAmount) (\<lambda>tradeFee.
                Inr (maxInAmount - adminFee - tradeFee))))))"

section \<open>Deposit quotes\<close>

definition getDepositQuote ::
  "('v, 'd, 'p) collaborators \<Rightarrow> ('v, 'd) amm_impl \<Rightarrow> int \<Rightarrow> int \<Rightarrow> bool \<Rightarrow> int
     \<Rightarrow> deposit_quote result" where
  "getDepositQuote ext this tokenAIn tokenBIn balance slippage =
     (if \<not> isStablePool this \<and> tokenAIn \<noteq> 0 \<and> tokenBIn \<noteq> 0
          \<and> poolLpSupply (accountsInfo this) \<noteq> 0
      then Inl (InvariantFailed (Literal ''Constant product only supports balanced deposit''))
      else if tokenAIn \<noteq> 0 \<and> tokenBIn \<noteq> 0 \<and> balance
      then Inl (InvariantFailed
                 (Literal ''Deposit balance is not possible when both token in amount is non-zero''))
      else if poolLpSupply (accountsInfo this) = 0
      then bind_result (of_collaborator (computeD (swapCurve this) tokenAIn tokenBIn)) (\<lambda>out.
             Inr \<lparr> poolTokenAmountOut = out,
                   minPoolTokenAmountOut = out,
                   tokenAInAmount = tokenAIn,
                   tokenBInAmount = tokenBIn \<rparr>)
      else
        bind_result (bn_toNumber (currentTime (accountsInfo this))) (\<lambda>now.
        let vaultAWithdrawableAmount = calculateWithdrawableAmount ext now (vaultA this) in
        bind_result (bn_toNumber (currentTime (accountsInfo this))) (\<lambda>now'.
        let vaultBWithdrawableAmount = calculateWithdrawableAmount ext now' (vaultB this) in
        if tokenAIn = 0 \<and> balance then
          bind_result (getShareByAmount tokenBIn (tokenBAmount (poolInfo this))
                         (poolLpSupply (accountsInfo this)) None) (\<lambda>out.
          let bufferedPoolTokenAmountOut = getMinAmountWithSlippage out (UNLOCK_AMOUNT_BUFFER ext) in
          if isStablePool this then
            bind_result (bn_div (tokenBIn * tokenAAmount (poolInfo this))
                                (tokenBAmount (poolInfo this))) (\<lambda>derivedA.
              Inr \<lparr> poolTokenAmountOut = bufferedPoolTokenAmountOut,
                    minPoolTokenAmountOut = getMinAmountWithSlippage bufferedPoolTokenAmountOut slippage,
                    tokenAInAmount = derivedA,
                    tokenBInAmount = tokenBIn \<rparr>)
          else bind_result (computeActualInAmount out
                (poolLpSupply (accountsInfo this))
                (poolVaultALp (accountsInfo this)) (poolVaultBLp (accountsInfo this))
                (vaultALpSupply (accountsInfo this)) (vaultBLpSupply (accountsInfo this))
                vaultAWithdrawableAmount vaultBWithdrawableAmount)
              (\<lambda>(actualTokenAInAmount, actualTokenBInAmount).
                Inr \<lparr> poolTokenAmountOut = bufferedPoolTokenAmountOut,
                      minPoolTokenAmountOut = getMinAmountWithSlippage bufferedPoolTokenAmountOut slippage,
                      tokenAInAmount = getMaxAmountWithSlippage ext actualTokenAInAmount slippage,
                      tokenBInAmount = getMaxAmountWithSlippage ext actualTokenBInAmount slippage \<rparr>))
        else if tokenBIn = 0 \<and> balance then
          bind_result (getShareByAmount tokenAIn (tokenAAmount (poolInfo this))
                         (poolLpSupply (accountsInfo this)) None) (\<lambda>out.
          let bufferedPoolTokenAmountOut = getMinAmountWithSlippage out (UNLOCK_AMOUNT_BUFFER ext) in
          if isStablePool this then
            bind_result (bn_div (tokenAIn * tokenBAmount (poolInfo this))
                                (tokenAAmount (poolInfo this))) (\<lambda>derivedB.
              Inr \<lparr> poolTokenAmountOut = bufferedPoolTokenAmountOut,
                    minPoolTokenAmountOut = getMinAmountWithSlippage bufferedPoolTokenAmountOut slippage,
                    tokenAInAmount = tokenAIn,
                    tokenBInAmount = derivedB \<rparr>)
          else bind_result (computeActualInAmount out
                (poolLpSupply (accountsInfo this))
                (poolVaultALp (accountsInfo this)) (poolVaultBLp (accountsInfo this))
                (vaultALpSupply (accountsInfo this)) (vaultBLpSupply (accountsInfo this))
                vaultAWithdrawableAmount vaultBWithdrawableAmount)
              (\<lambda>(actualTokenAInAmount, actualTokenBInAmount).
                Inr \<lparr> poolTokenAmountOut = bufferedPoolTokenAmountOut,
                      minPoolTokenAmountOut = getMinAmountWithSlippage bufferedPoolTokenAmountOut slippage,
                      tokenAInAmount = getMaxAmountWithSlippage ext actualTokenAInAmount slippage,
                      tokenBInAmount = getMaxAmountWithSlippage ext actualTokenBInAmount slippage \<rparr>))
        else
          bind_result (of_collaborator (computeActualDepositAmount ext tokenAIn
              (tokenAAmount (poolInfo this)) (poolVaultALp (accountsInfo this))
              (vaultALpSupply (accountsInfo this)) vaultAWithdrawableAmount)) (\<lambda>actualDepositAAmount.
          bind_result (of_collaborator (computeActualDepositAmount ext tokenBIn
              (tokenBAmount (poolInfo this)) (poolVaultBLp (accountsInfo this))
              (vaultBLpSupply (accountsInfo this)) vaultBWithdrawableAmount)) (\<lambda>actualDepositBAmount.
          bind_result (of_collaborator (computeImbalanceDeposit (swapCurve this)
              actualDepositAAmount actualDepositBAmount
              (tokenAAmount (poolInfo this)) (tokenBAmount (poolInfo this))
              (poolLpSupply (accountsInfo this)) (fees (poolState this)))) (\<lambda>out.
            Inr \<lparr> poolTokenAmountOut = out,
                  minPoolTokenAmountOut = getMinAmountWithSlippage out slippage,
                  tokenAInAmount = tokenAIn,
                  tokenBInAmount = tokenBIn \<rparr>))))))"

section \<open>Withdraw quotes\<close>

definition getWithdrawQuote ::
  "('v, 'd, 'p) collaborators \<Rightarrow> ('v, 'd) amm_impl \<Rightarrow> int \<Rightarrow> int \<Rightarrow> pubkey option
     \<Rightarrow> withdraw_quote result" where
  "getWithdrawQuote ext this withdrawTokenAmount slippage tokenMint =
     bind_result (bn_toNumber (currentTime (accountsInfo this))) (\<lambda>now.
     let vaultAWithdrawableAmount = calculateWithdrawableAmount ext now (vaultA this) in
     bind_result (bn_toNumber (currentTime (accountsInfo this))) (\<lambda>now'.
     let vaultBWithdrawableAmount = calculateWithdrawableAmount ext now' (vaultB this) in
     case tokenMint of
       None \<Rightarrow>
         bind_result (getShareByAmount withdrawTokenAmount (poolLpSupply (accountsInfo this))
                        (poolVaultALp (accountsInfo this)) None) (\<lambda>vaultALpBurn.
         bind_result (getShareByAmount withdrawTokenAmount (poolLpSupply (accountsInfo this))
                        (poolVaultBLp (accountsInfo this)) None) (\<lambda>vaultBLpBurn.
         bind_result (getAmountByShare vaultALpBurn vaultAWithdrawableAmount
                        (vaultALpSupply (accountsInfo this)) None) (\<lambda>tokenAOut.
         bind_result (getAmountByShare vaultBLpBurn vaultBWithdrawableAmount
                        (vaultBLpSupply (accountsInfo this)) None) (\<lambda>tokenBOut.
           Inr \<lparr> poolTokenAmountIn = withdrawTokenAmount,
                 tokenAOutAmount = tokenAOut,
                 tokenBOutAmount = tokenBOut,
                 minTokenAOutAmount = getMinAmountWithSlippage tokenAOut slippage,
                 minTokenBOutAmount = getMinAmountWithSlippage tokenBOut slippage \<rparr>))))
     | Some mint \<Rightarrow>
         let isWithdrawingTokenA = (mint = address (tokenA this));
             isWithdrawingTokenB = (mint = address (tokenB this))
         in if \<not> (isWithdrawingTokenA \<or> isWithdrawingTokenB)
            then Inl (InvariantFailed ERROR_INVALID_MINT)
            else
              let tradeDirection = (if mint = tokenAMint (poolState this) then BToA else AToB) in
              bind_result (of_collaborator (computeWithdrawOne (swapCurve this) withdrawTokenAmount
                  (poolLpSupply (accountsInfo this))
                  (tokenAAmount (poolInfo this)) (tokenBAmount (poolInfo this))
                  (fees (poolState this)) tradeDirection)) (\<lambda>outAmount.
              let (vaultLpSupply, vaultTotalAmount) =
                    (if tradeDirection = AToB
                     then (vaultBLpSupply (accountsInfo this), vaultBWithdrawableAmount)
                     else (vaultALpSupply (accountsInfo this), vaultAWithdrawableAmount))
              in bind_result (bn_div (outAmount * vaultLpSupply) vaultTotalAmount) (\<lambda>vaultLpToBurn.
                 bind_result (bn_div (vaultLpToBurn * vaultTotalAmount) vaultLpSupply) (\<lambda>realOutAmount.
                 let minRealOutAmount = getMinAmountWithSlippage realOutAmount slippage in
                 Inr \<lparr> poolTokenAmountIn = withdrawTokenAmount,
                       tokenAOutAmount = (if isWithdrawingTokenA then realOutAmount else 0),
                       tokenBOutAmount = (if isWithdrawingTokenB then realOutAmount else 0),
                       minTokenAOutAmount = (if isWithdrawingTokenA then minRealOutAmount else 0),
                       minTokenBOutAmount = (if isWithdrawingTokenB then minRealOutAmount else 0) \<rparr>)))))"

section \<open>Concrete pools\<close>

text \<open>
  Pools and collaborators on which the statements below are evaluated. The vault state is
  reduced to the amount the vault lets withdraw, and the sample collaborators return fixed
  or simple values: they stand for no particular curve.
\<close>

definition sample_curve :: swap_curve where
  "sample_curve =
     \<lparr> computeD = (\<lambda>a b. Some (a + b)),
       computeInAmount = (\<lambda>out src dst dir. Some (2 * out)),
       computeImbalanceDeposit = (\<lambda>a b poolA poolB supply f. Some (a + b)),
       computeWithdrawOne = (\<lambda>lp supply poolA poolB f dir. Some (7 * lp)) \<rparr>"

definition sample_ext :: "(int, unit, unit) collaborators" where
  "sample_ext =
     \<lparr> calculateSwapQuote = (\<lambda>mint amount param. Some (9900, 25, ())),
       calculateMaxSwapOutAmount =
         (\<lambda>mint mintA mintB amountA amountB reserveA reserveB.
            if mint = mintA then Some (min amountA reserveA)
            else if mint = mintB then Some (min amountB reserveB)
            else None),
       computeActualDepositAmount = (\<lambda>deposit poolAmount poolVaultLp vaultSupply vaultTotal. Some deposit),
       getMaxAmountWithSlippage = (\<lambda>amount slippageBps. bn_quot (amount * (10000 + slippageBps)) 10000),
       calculateWithdrawableAmount = (\<lambda>now vault. vault),
       UNLOCK_AMOUNT_BUFFER = 0 \<rparr>"

definition sample_pool :: "(int, unit) amm_impl" where
  "sample_pool =
     \<lparr> tokenA = \<lparr> address = ''A'' \<rparr>,
       tokenB = \<lparr> address = ''B'' \<rparr>,
       poolState = \<lparr> tokenAMint = ''A'', tokenBMint = ''B'',
                     fees = \<lparr> tradeFeeNumerator = 25, tradeFeeDenominator = 10000,
                              ownerTradeFeeNumerator = 5, ownerTradeFeeDenominator = 10000 \<rparr>,
                     curveType = ConstantProduct \<rparr>,
       poolInfo = \<lparr> tokenAAmount = 1100, tokenBAmount = 1100 \<rparr>,
       vaultA = 3300,
       vaultB = 3300,
       accountsInfo = \<lparr> currentTime = 1700000000,
                        poolVaultALp = 1000, poolVaultBLp = 1000,
                        vaultALpSupply = 3000, vaultBLpSupply = 3000,
                        vaultAReserve = 3300, vaultBReserve = 3300,
                        poolLpSupply = 1000 \<rparr>,
       swapCurve = sample_curve,
       depegAccounts = () \<rparr>"

text \<open>The same pool before any deposit: no liquidity token exists.\<close>

definition empty_pool :: "(int, unit) amm_impl" where
  "empty_pool = sample_pool \<lparr> accountsInfo := (accountsInfo sample_pool) \<lparr> poolLpSupply := 0 \<rparr> \<rparr>"

text \<open>A stable pool holding one unit of each token, both multipliers being 1.\<close>

definition balanced_stable_pool :: "(int, unit) amm_impl" where
  "balanced_stable_pool =
     sample_pool \<lparr> poolState := (poolState sample_pool)
                      \<lparr> curveType := Stable 100 \<lparr> tokenAMultiplier = 1, tokenBMultiplier = 1 \<rparr> \<rparr>,
                   poolInfo := \<lparr> tokenAAmount = 1, tokenBAmount = 1 \<rparr> \<rparr>"

text \<open>A stable pool with liquidity tokens in circulation whose reserve of token B is zero.\<close>

definition one_sided_stable_pool :: "(int, unit) amm_impl" where
  "one_sided_stable_pool =
     sample_pool \<lparr> poolState := (poolState sample_pool)
                      \<lparr> curveType := Stable 100 \<lparr> tokenAMultiplier = 1, tokenBMultiplier = 1 \<rparr> \<rparr>,
                   poolInfo := \<lparr> tokenAAmount = 1000, tokenBAmount = 0 \<rparr> \<rparr>"

text \<open>The constant-product sample pool with the same amounts: none of token B.\<close>

definition one_sided_pool :: "(int, unit) amm_impl" where
  "one_sided_pool = sample_pool \<lparr> poolInfo := \<lparr> tokenAAmount = 1000, tokenBAmount = 0 \<rparr> \<rparr>"

text \<open>A pool whose vault of token A lets nothing be withdrawn.\<close>

definition locked_vault_pool :: "(int, unit) amm_impl" where
  "locked_vault_pool = sample_pool \<lparr> vaultA := 0 \<rparr>"

text \<open>A stable pool that holds nothing, and one whose multipliers are 10.\<close>

definition hollow_stable_pool :: "(int, unit) amm_impl" where
  "hollow_stable_pool =
     balanced_stable_pool \<lparr> poolInfo := \<lparr> tokenAAmount = 0, tokenBAmount = 0 \<rparr> \<rparr>"

definition scaled_stable_pool :: "(int, unit) amm_impl" where
  "scaled_stable_pool =
     sample_pool \<lparr> poolState := (poolState sample_pool)
                      \<lparr> curveType := Stable 100 \<lparr> tokenAMultiplier = 10, tokenBMultiplier = 10 \<rparr> \<rparr>,
                   poolInfo := \<lparr> tokenAAmount = 96, tokenBAmount = 4 \<rparr> \<rparr>"

text \<open>Whether a result is the failure of one of the \<^verbatim>\<open>invariant\<close> checks.\<close>

definition invariantFailure :: "'a result \<Rightarrow> bool" where
  "invariantFailure r = (case r of Inl (InvariantFailed m) \<Rightarrow> True | _ \<Rightarrow> False)"

section \<open>Properties\<close>

lemmas sample_defs = sample_curve_def sample_ext_def sample_pool_def empty_pool_def
  balanced_stable_pool_def one_sided_stable_pool_def locked_vault_pool_def
  hollow_stable_pool_def scaled_stable_pool_def one_sided_pool_def

lemmas code_defs = bind_result_def of_collaborator_def bn_div_def bn_divRound_def bn_quot_def
  bn_toNumber_def getMinAmountWithSlippage_def getShareByAmount_def getAmountByShare_def
  truthy_def isStablePool_def calculateAdminTradingFee_def calculateTradingFee_def
  computeActualInAmount_def getMaxSwapOutAmount_def

subsection \<open>Truncating division and results\<close>

lemma bn_quot_nonneg: "0 \<le> a \<Longrightarrow> 0 \<le> b \<Longrightarrow> bn_quot a b = a div b"
  by (cases "a = 0"; cases "b = 0") (simp_all add: bn_quot_def)

lemma bn_quot_nonpos: "a \<le> 0 \<Longrightarrow> 0 \<le> b \<Longrightarrow> bn_quot a b \<le> 0"
  by (simp add: bn_quot_def sgn_if mult_le_0_iff pos_imp_zdiv_nonneg_iff)

lemma slippage_quot_le:
  assumes "0 \<le> a" "0 \<le> s"
  shows "bn_quot (a * (10000 - s)) 10000 \<le> a"
proof (cases "s \<le> 10000")
  case True
  then have nn: "0 \<le> a * (10000 - s)" using assms by simp
  have "a * (10000 - s) \<le> a * 10000" using assms by (simp add: mult_left_mono)
  then have "a * (10000 - s) div 10000 \<le> a * 10000 div 10000" by (rule zdiv_mono1) simp
  then show ?thesis using nn by (simp add: bn_quot_nonneg)
next
  case False
  then have "a * (10000 - s) \<le> 0" using assms by (simp add: mult_le_0_iff)
  then have "bn_quot (a * (10000 - s)) 10000 \<le> 0" by (rule bn_quot_nonpos) simp
  then show ?thesis using assms by simp
qed

lemma one_le_div: "0 < (t::int) \<Longrightarrow> t \<le> x \<Longrightarrow> 1 \<le> x div t"
  using zdiv_mono1 [of t x t] by simp




lemma bind_result_Inr [simp]: "bind_result (Inr v) f = f v"
  by (simp add: bind_result_def)

lemma bind_result_Inl [simp]: "bind_result (Inl e) f = Inl e"
  by (simp add: bind_result_def)

lemma of_collaborator_Inr_iff: "of_collaborator r = Inr v \<longleftrightarrow> r = Some v"
  by (cases r) (simp_all add: of_collaborator_def)



subsection \<open>Slippage of a swap quote\<close>

text \<open>
  C1. Whenever \<open>getSwapQuote\<close> returns a quote, its minimum output is the output
  amount times \<open>10000 - slippageBps\<close>, divided by 10000 with the truncating division of
  the big integers. For an output and a slippage that are not negative the minimum is at
  most the output, and for a slippage of at most 10000 basis points the truncating
  division is the integer division \<open>div\<close>.
\<close>

theorem swap_quote_slippage_bound:
  assumes "getSwapQuote ext this inTokenMint inAmountLamport slippageBps = Inr q"
  shows "minSwapOutAmount q = bn_quot (swapOutAmount q * (10000 - slippageBps)) 10000
       \<and> (0 \<le> swapOutAmount q \<and> 0 \<le> slippageBps \<longrightarrow> minSwapOutAmount q \<le> swapOutAmount q)
       \<and> (0 \<le> swapOutAmount q \<and> 0 \<le> slippageBps \<and> slippageBps \<le> 10000 \<longrightarrow>
            minSwapOutAmount q = swapOutAmount q * (10000 - slippageBps) div 10000)"
proof -
  have eq: "minSwapOutAmount q = bn_quot (swapOutAmount q * (10000 - slippageBps)) 10000"
    using assms
    by (auto simp add: getSwapQuote_def bind_result_def of_collaborator_def
          getMinAmountWithSlippage_def split: sum.splits option.splits prod.splits)
  have le: "minSwapOutAmount q \<le> swapOutAmount q"
    if "0 \<le> swapOutAmount q" "0 \<le> slippageBps"
    using that eq by (simp add: slippage_quot_le)
  have dv: "minSwapOutAmount q = swapOutAmount q * (10000 - slippageBps) div 10000"
    if "0 \<le> swapOutAmount q" "0 \<le> slippageBps" "slippageBps \<le> 10000"
    using that eq by (simp add: bn_quot_nonneg)
  show ?thesis using eq le dv by blast
qed

text \<open>
  The sample pool quotes 9900 units out for 10000 in; at 50 basis points the minimum is
  9850.
\<close>

theorem swap_quote_slippage_bound_witness:
  "getSwapQuote sample_ext sample_pool ''A'' 10000 50 =
     Inr \<lparr> swapInAmount = 10000, swapOutAmount = 9900, minSwapOutAmount = 9850,
           fee = 25, priceImpact = () \<rparr>
   \<and> (0::int) \<le> 9900 \<and> (0::int) \<le> 50 \<and> (50::int) \<le> 10000
   \<and> (9850::int) \<le> 9900 \<and> (9850::int) = 9900 * (10000 - 50) div 10000"
proof -
  have q: "getSwapQuote sample_ext sample_pool ''A'' 10000 50 =
     Inr \<lparr> swapInAmount = 10000, swapOutAmount = 9900, minSwapOutAmount = 9850,
           fee = 25, priceImpact = () \<rparr>"
    by (simp add: getSwapQuote_def sample_defs code_defs)
  show ?thesis using q swap_quote_slippage_bound [OF q] by simp
qed

subsection \<open>The first deposit\<close>

text \<open>
  C2, as amended. On a pool without liquidity tokens, for all input amounts and every
  value of the balance flag except both amounts non-zero together with the flag set,
  \<open>getDepositQuote\<close> takes the bootstrap branch: the minted amount is
  \<open>computeD\<close> of the two inputs, the minimum equals it, and both inputs come back
  unchanged; an exception of \<open>computeD\<close> is passed on.
\<close>

theorem deposit_quote_bootstrap:
  assumes "poolLpSupply (accountsInfo this) = 0"
      and "\<not> (tokenAIn \<noteq> 0 \<and> tokenBIn \<noteq> 0 \<and> balance)"
  shows "getDepositQuote ext this tokenAIn tokenBIn balance slippage =
           (case computeD (swapCurve this) tokenAIn tokenBIn of
              None \<Rightarrow> Inl CollaboratorFailed
            | Some d \<Rightarrow> Inr \<lparr> poolTokenAmountOut = d, minPoolTokenAmountOut = d,
                              tokenAInAmount = tokenAIn, tokenBInAmount = tokenBIn \<rparr>)"
  using assms
  by (simp add: getDepositQuote_def bind_result_def of_collaborator_def split: option.splits)

text \<open>Both amounts non-zero without the flag, on the empty sample pool.\<close>

theorem deposit_quote_bootstrap_witness:
  "poolLpSupply (accountsInfo empty_pool) = 0
   \<and> \<not> ((1::int) \<noteq> 0 \<and> (1::int) \<noteq> 0 \<and> False)
   \<and> getDepositQuote sample_ext empty_pool 1 1 False 50 =
       Inr \<lparr> poolTokenAmountOut = 2, minPoolTokenAmountOut = 2,
             tokenAInAmount = 1, tokenBInAmount = 1 \<rparr>"
proof -
  have h: "poolLpSupply (accountsInfo empty_pool) = 0"
    by (simp add: sample_defs)
  have g: "\<not> ((1::int) \<noteq> 0 \<and> (1::int) \<noteq> 0 \<and> False)"
    by simp
  show ?thesis
    using h deposit_quote_bootstrap [OF h g, of sample_ext 50]
    by (simp add: sample_defs)
qed

text \<open>
  C2 as stated fails: with both amounts non-zero and the balance flag set, the second
  precondition check rejects the call although the pool has no liquidity tokens, so the
  bootstrap branch is not reached.
\<close>

theorem deposit_quote_bootstrap_counterexample:
  "poolLpSupply (accountsInfo empty_pool) = 0
   \<and> getDepositQuote sample_ext empty_pool 1 1 True 50 =
       Inl (InvariantFailed
             (Literal ''Deposit balance is not possible when both token in amount is non-zero''))"
  by (simp add: getDepositQuote_def sample_defs code_defs)

subsection \<open>Depeg detection\<close>

text \<open>
  What the comparison in \<open>depegToken\<close> amounts to: the quotient of twice the raw
  amount of token A by the normalized total is an integer, so its hundredfold exceeds 95
  as soon as the quotient is at least 1.
\<close>

lemma depegToken_half:
  assumes "curveType (poolState this) = Stable a m"
      and "0 < tokenAAmount (poolInfo this) * tokenAMultiplier m
               + tokenBAmount (poolInfo this) * tokenBMultiplier m"
      and "tokenAAmount (poolInfo this) * tokenAMultiplier m
               + tokenBAmount (poolInfo this) * tokenBMultiplier m
             \<le> 2 * tokenAAmount (poolInfo this)"
  shows "depegToken this = Inr (Some (tokenA this))"
proof -
  let ?total = "tokenAAmount (poolInfo this) * tokenAMultiplier m
                  + tokenBAmount (poolInfo this) * tokenBMultiplier m"
  have nn: "0 \<le> tokenAAmount (poolInfo this) * 2" using assms(2,3) by simp
  have "1 \<le> tokenAAmount (poolInfo this) * 2 div ?total"
    using assms(2,3) by (intro one_le_div) simp_all
  then have "95 < bn_quot (tokenAAmount (poolInfo this) * 2) ?total * 100"
    using nn assms(2) by (simp add: bn_quot_nonneg)
  then show ?thesis
    using assms(1,2) by (simp add: depegToken_def bn_div_def Let_def)
qed

text \<open>
  C3 fails on the code. In a stable pool holding one unit of each token with multipliers
  1, token A has half of the normalized value, which does not exceed 95 percent, and
  \<open>depegToken\<close> returns it; in a stable pool with multipliers 10 where token A has
  96 percent of the normalized value, \<open>depegToken\<close> returns nothing.
\<close>

theorem depegToken_threshold_evaluation:
  "depegToken balanced_stable_pool = Inr (Some \<lparr> address = ''A'' \<rparr>)
   \<and> \<not> (95 * (1 * 1 + 1 * 1) < (100::int) * (1 * 1))
   \<and> depegToken scaled_stable_pool = Inr None
   \<and> 95 * (96 * 10 + 4 * 10) < (100::int) * (96 * 10)"
  by (simp add: depegToken_def sample_defs code_defs)

text \<open>
  C10. \<open>depegToken\<close> returns normally on every pool: both divisions are by the
  normalized total, and they are reached only after the total was found non-zero. It
  returns nothing when the pool is not a stable pool, and on a stable pool when the
  normalized total is zero.
\<close>

theorem depegToken_never_fails:
  "(\<exists>r. depegToken this = Inr r)
   \<and> (\<not> isStablePool this \<longrightarrow> depegToken this = Inr None)
   \<and> (\<forall>a m. curveType (poolState this) = Stable a m
        \<and> tokenAAmount (poolInfo this) * tokenAMultiplier m
          + tokenBAmount (poolInfo this) * tokenBMultiplier m = 0
        \<longrightarrow> depegToken this = Inr None)"
  by (simp add: depegToken_def isStablePool_def bind_result_def bn_div_def Let_def
        split: curve_type.splits)

text \<open>The constant-product sample pool, and the stable pool that holds nothing.\<close>

theorem depegToken_never_fails_witness:
  "\<not> isStablePool sample_pool \<and> depegToken sample_pool = Inr None
   \<and> curveType (poolState hollow_stable_pool)
       = Stable 100 \<lparr> tokenAMultiplier = 1, tokenBMultiplier = 1 \<rparr>
   \<and> tokenAAmount (poolInfo hollow_stable_pool) * 1
       + tokenBAmount (poolInfo hollow_stable_pool) * 1 = 0
   \<and> depegToken hollow_stable_pool = Inr None"
  using depegToken_never_fails [of sample_pool] depegToken_never_fails [of hollow_stable_pool]
  by (simp add: sample_defs isStablePool_def)

subsection \<open>Zero divisors of the share conversions\<close>

text \<open>
  C4. Whatever the amount, the other total and the rounding flag (given or left out),
  the share-from-amount conversion returns 0 when the total amount it divides by is 0,
  and the amount-from-share conversion returns 0 when the share supply it divides by is
  0; both return normally.
\<close>

theorem share_conversions_zero_divisor:
  "getShareByAmount amount 0 lpSupply roundUp = Inr 0
   \<and> getAmountByShare shares tokenAmount 0 roundUp' = Inr 0"
  by (simp add: getShareByAmount_def getAmountByShare_def)

subsection \<open>Rounding of the share conversions\<close>

text \<open>
  C5 fails on the code. With the round-up flag set the conversions call the rounded
  division, which rounds to the nearest integer: one third becomes 0, below the exact
  quotient, where a ceiling gives 1. The vault shares that \<open>computeActualInAmount\<close>
  derives for a deposit are rounded down in the same way.
\<close>

theorem round_up_flag_evaluation:
  "getShareByAmount 1 3 1 (Some True) = Inr 0
   \<and> getAmountByShare 1 1 3 (Some True) = Inr 0
   \<and> (0::int) * 3 < 1 * 1
   \<and> computeActualInAmount 1 3 1 1 3 3 1 1 = Inr (0, 0)"
  by (simp add: code_defs)

subsection \<open>Operations that always return\<close>

lemma bn_divRound_total: "b \<noteq> 0 \<Longrightarrow> \<exists>v. bn_divRound a b = Inr v"
  by (simp add: bn_divRound_def Let_def)

lemma getShareByAmount_total: "\<exists>v. getShareByAmount amount tokenAmount lpSupply roundUp = Inr v"
  using bn_divRound_total by (simp add: getShareByAmount_def bn_div_def)

lemma getAmountByShare_total: "\<exists>v. getAmountByShare amount tokenAmount lpSupply roundUp = Inr v"
  using bn_divRound_total by (simp add: getAmountByShare_def bn_div_def)

lemma computeActualInAmount_total:
  "\<exists>v. computeActualInAmount p s la lb sa sb wa wb = Inr v"
proof -
  obtain a where a: "getShareByAmount p s la (Some True) = Inr a"
    using getShareByAmount_total by blast
  obtain b where b: "getShareByAmount p s lb (Some True) = Inr b"
    using getShareByAmount_total by blast
  obtain c where c: "getAmountByShare a wa sa (Some True) = Inr c"
    using getAmountByShare_total by blast
  obtain d where d: "getAmountByShare b wb sb (Some True) = Inr d"
    using getAmountByShare_total by blast
  show ?thesis by (simp add: computeActualInAmount_def a b c d)
qed

lemma invariantFailure_Inr [simp]: "\<not> invariantFailure (Inr v)"
  by (simp add: invariantFailure_def)

lemma invariantFailure_InvariantFailed [simp]: "invariantFailure (Inl (InvariantFailed m))"
  by (simp add: invariantFailure_def)

lemma invariantFailure_bind [simp]:
  "invariantFailure (bind_result r f) \<longleftrightarrow>
     invariantFailure r \<or> (\<exists>v. r = Inr v \<and> invariantFailure (f v))"
  by (cases r) (auto simp: invariantFailure_def bind_result_def)

lemma invariantFailure_bn_div [simp]: "\<not> invariantFailure (bn_div a b)"
  by (simp add: invariantFailure_def bn_div_def)

lemma invariantFailure_bn_toNumber [simp]: "\<not> invariantFailure (bn_toNumber a)"
  by (simp add: invariantFailure_def bn_toNumber_def)

lemma invariantFailure_of_collaborator [simp]: "\<not> invariantFailure (of_collaborator r)"
  by (cases r) (simp_all add: invariantFailure_def of_collaborator_def)

lemma invariantFailure_getShareByAmount [simp]: "\<not> invariantFailure (getShareByAmount a t l r)"
  using getShareByAmount_total [of a t l r] by auto

lemma invariantFailure_computeActualInAmount [simp]:
  "\<not> invariantFailure (computeActualInAmount p s la lb sa sb wa wb)"
  using computeActualInAmount_total [of p s la lb sa sb wa wb] by auto

subsection \<open>Precondition checks of the deposit quote\<close>

lemma deposit_checks_pass:
  assumes "\<not> (\<not> isStablePool this \<and> a \<noteq> 0 \<and> b \<noteq> 0 \<and> poolLpSupply (accountsInfo this) \<noteq> 0)"
      and "\<not> (a \<noteq> 0 \<and> b \<noteq> 0 \<and> balance)"
  shows "\<not> invariantFailure (getDepositQuote ext this a b balance slippage)"
  using assms by (auto simp: getDepositQuote_def Let_def split_beta)

lemma deposit_bootstrap_returns:
  assumes "\<not> (a \<noteq> 0 \<and> b \<noteq> 0 \<and> balance)"
      and "poolLpSupply (accountsInfo this) = 0"
      and "computeD (swapCurve this) a b \<noteq> None"
  shows "\<exists>q. getDepositQuote ext this a b balance slippage = Inr q"
  using assms by (auto simp: getDepositQuote_def of_collaborator_def)

lemma deposit_balanced_constant_product_returns:
  assumes "\<not> isStablePool this" "poolLpSupply (accountsInfo this) \<noteq> 0"
      and "\<bar>currentTime (accountsInfo this)\<bar> < 2 ^ 53"
      and "balance" "a = 0 \<or> b = 0"
  shows "\<exists>q. getDepositQuote ext this a b balance slippage = Inr q"
proof -
  have now: "bn_toNumber (currentTime (accountsInfo this)) = Inr (currentTime (accountsInfo this))"
    using assms(3) by (simp add: bn_toNumber_def)
  obtain s where s: "getShareByAmount b (tokenBAmount (poolInfo this))
                       (poolLpSupply (accountsInfo this)) None = Inr s"
    using getShareByAmount_total by blast
  obtain s' where s': "getShareByAmount a (tokenAAmount (poolInfo this))
                         (poolLpSupply (accountsInfo this)) None = Inr s'"
    using getShareByAmount_total by blast
  obtain p where p: "computeActualInAmount s (poolLpSupply (accountsInfo this))
                (poolVaultALp (accountsInfo this)) (poolVaultBLp (accountsInfo this))
                (vaultALpSupply (accountsInfo this)) (vaultBLpSupply (accountsInfo this))
                (calculateWithdrawableAmount ext (currentTime (accountsInfo this)) (vaultA this))
                (calculateWithdrawableAmount ext (currentTime (accountsInfo this)) (vaultB this)) = Inr p"
    using computeActualInAmount_total by blast
  obtain p' where p': "computeActualInAmount s' (poolLpSupply (accountsInfo this))
                (poolVaultALp (accountsInfo this)) (poolVaultBLp (accountsInfo this))
                (vaultALpSupply (accountsInfo this)) (vaultBLpSupply (accountsInfo this))
                (calculateWithdrawableAmount ext (currentTime (accountsInfo this)) (vaultA this))
                (calculateWithdrawableAmount ext (currentTime (accountsInfo this)) (vaultB this)) = Inr p'"
    using computeActualInAmount_total by blast
  show ?thesis
    using assms(1,2,4,5) by (auto simp: getDepositQuote_def now s s' p p' Let_def split_beta)
qed

lemma deposit_balanced_stable_returns:
  assumes "isStablePool this" "poolLpSupply (accountsInfo this) \<noteq> 0"
      and "\<bar>currentTime (accountsInfo this)\<bar> < 2 ^ 53"
      and "balance" "a = 0 \<or> b = 0"
      and "a = 0 \<longrightarrow> tokenBAmount (poolInfo this) \<noteq> 0"
      and "a \<noteq> 0 \<longrightarrow> tokenAAmount (poolInfo this) \<noteq> 0"
  shows "\<exists>q. getDepositQuote ext this a b balance slippage = Inr q"
proof -
  have now: "bn_toNumber (currentTime (accountsInfo this)) = Inr (currentTime (accountsInfo this))"
    using assms(3) by (simp add: bn_toNumber_def)
  obtain s where s: "getShareByAmount b (tokenBAmount (poolInfo this))
                       (poolLpSupply (accountsInfo this)) None = Inr s"
    using getShareByAmount_total by blast
  obtain s' where s': "getShareByAmount a (tokenAAmount (poolInfo this))
                         (poolLpSupply (accountsInfo this)) None = Inr s'"
    using getShareByAmount_total by blast
  show ?thesis
    using assms(1,2,4,5,6,7) by (auto simp: getDepositQuote_def now s s' Let_def bn_div_def)
qed

lemma deposit_imbalanced_returns:
  assumes "isStablePool this \<or> a = 0 \<or> b = 0" "poolLpSupply (accountsInfo this) \<noteq> 0"
      and "\<bar>currentTime (accountsInfo this)\<bar> < 2 ^ 53"
      and "\<not> balance"
      and "computeActualDepositAmount ext a (tokenAAmount (poolInfo this))
              (poolVaultALp (accountsInfo this)) (vaultALpSupply (accountsInfo this))
              (calculateWithdrawableAmount ext (currentTime (accountsInfo this)) (vaultA this)) = Some x"
      and "computeActualDepositAmount ext b (tokenBAmount (poolInfo this))
              (poolVaultBLp (accountsInfo this)) (vaultBLpSupply (accountsInfo this))
              (calculateWithdrawableAmount ext (currentTime (accountsInfo this)) (vaultB this)) = Some y"
      and "computeImbalanceDeposit (swapCurve this) x y (tokenAAmount (poolInfo this))
              (tokenBAmount (poolInfo this)) (poolLpSupply (accountsInfo this))
              (fees (poolState this)) \<noteq> None"
  shows "\<exists>q. getDepositQuote ext this a b balance slippage = Inr q"
proof -
  have now: "bn_toNumber (currentTime (accountsInfo this)) = Inr (currentTime (accountsInfo this))"
    using assms(3) by (simp add: bn_toNumber_def)
  show ?thesis
    using assms(1,2,4,5,6,7) by (auto simp: getDepositQuote_def now Let_def of_collaborator_def)
qed

text \<open>
  The two checks by themselves: the first rejects a constant-product pool with liquidity
  tokens and two non-zero amounts, the second rejects two non-zero amounts together with
  the balance flag, and no other input makes \<open>getDepositQuote\<close> fail with an
  invariant error.
\<close>

lemma deposit_quote_checks:
  fixes ext :: "('v, 'd, 'p) collaborators" and this :: "('v, 'd) amm_impl"
    and tokenAIn tokenBIn slippage :: int and balance :: bool
  defines "constantProductDual \<equiv>
             \<not> isStablePool this \<and> tokenAIn \<noteq> 0 \<and> tokenBIn \<noteq> 0
               \<and> poolLpSupply (accountsInfo this) \<noteq> 0"
  defines "dualBalanced \<equiv> tokenAIn \<noteq> 0 \<and> tokenBIn \<noteq> 0 \<and> balance"
  defines "quote \<equiv> getDepositQuote ext this tokenAIn tokenBIn balance slippage"
  shows "(constantProductDual \<longrightarrow>
            quote = Inl (InvariantFailed (Literal ''Constant product only supports balanced deposit'')))
       \<and> (\<not> constantProductDual \<and> dualBalanced \<longrightarrow>
            quote = Inl (InvariantFailed
              (Literal ''Deposit balance is not possible when both token in amount is non-zero'')))
       \<and> (invariantFailure quote \<longleftrightarrow> constantProductDual \<or> dualBalanced)"
proof -
  have first: "quote = Inl (InvariantFailed (Literal ''Constant product only supports balanced deposit''))"
    if constantProductDual
    using that by (simp add: quote_def constantProductDual_def getDepositQuote_def)
  have second: "quote = Inl (InvariantFailed
              (Literal ''Deposit balance is not possible when both token in amount is non-zero''))"
    if "\<not> constantProductDual" dualBalanced
    using that by (simp add: quote_def constantProductDual_def dualBalanced_def getDepositQuote_def)
  have pass: "\<not> invariantFailure quote" if "\<not> constantProductDual" "\<not> dualBalanced"
    using that deposit_checks_pass [of this tokenAIn tokenBIn balance ext slippage]
    by (simp add: quote_def constantProductDual_def dualBalanced_def)
  have checks: "invariantFailure quote \<longleftrightarrow> constantProductDual \<or> dualBalanced"
    using first second pass by (cases constantProductDual; cases dualBalanced) auto
  show ?thesis
    using first second checks by blast
qed

text \<open>
  C6 fails on the code in its last part. On a stable pool with liquidity tokens whose
  amount of token B is zero, a balanced deposit of token B alone passes both precondition
  checks, and yet no quote is produced: the missing side is derived with an unguarded
  division by that amount, which throws. With the same amounts the constant-product
  branch of the same function returns a quote of zeros.
\<close>

theorem deposit_quote_after_checks_evaluation:
  "isStablePool one_sided_stable_pool
   \<and> poolLpSupply (accountsInfo one_sided_stable_pool) = 1000
   \<and> tokenBAmount (poolInfo one_sided_stable_pool) = 0
   \<and> \<not> invariantFailure (getDepositQuote sample_ext one_sided_stable_pool 0 5 True 50)
   \<and> getDepositQuote sample_ext one_sided_stable_pool 0 5 True 50 = Inl AssertionFailed
   \<and> \<not> isStablePool one_sided_pool
   \<and> tokenBAmount (poolInfo one_sided_pool) = 0
   \<and> getDepositQuote sample_ext one_sided_pool 0 5 True 50 =
       Inr \<lparr> poolTokenAmountOut = 0, minPoolTokenAmountOut = 0,
             tokenAInAmount = 0, tokenBInAmount = 0 \<rparr>"
  by (simp add: getDepositQuote_def sample_defs code_defs invariantFailure_def)

subsection \<open>Maximum swap input\<close>

text \<open>
  C7. For a mint that is neither of the pool's two mints \<open>getMaxSwapInAmount\<close>
  fails with the invalid-mint error. For a mint of the pair, with \<open>maxOut\<close> the
  maximum output of the other token: the output handed to \<open>computeInAmount\<close> is
  \<open>maxOut\<close>, lowered by one unit when it equals the destination amount of the
  pool, so it never equals that amount and is at most the amount minus 1 whenever
  \<open>maxOut\<close> does not exceed the amount; and the result is the input
  \<open>maxIn\<close> so derived minus the admin trading fee and minus the trading fee, both
  taken on \<open>maxIn\<close> itself with the truncating division.
\<close>

theorem max_swap_in_amount:
  fixes ext :: "('v, 'd, 'p) collaborators" and this :: "('v, 'd) amm_impl"
    and tokenMint :: pubkey and maxOut maxIn :: int
  defines "toB \<equiv> (tokenMint = tokenAMint (poolState this))"
  defines "outTokenMint \<equiv> (if toB then tokenBMint (poolState this) else tokenAMint (poolState this))"
  defines "source \<equiv> (if toB then tokenAAmount (poolInfo this) else tokenBAmount (poolInfo this))"
  defines "dest \<equiv> (if toB then tokenBAmount (poolInfo this) else tokenAAmount (poolInfo this))"
  defines "capped \<equiv> (if maxOut = dest then dest - 1 else maxOut)"
  shows "(tokenMint \<noteq> tokenAMint (poolState this) \<and> tokenMint \<noteq> tokenBMint (poolState this)
            \<longrightarrow> getMaxSwapInAmount ext this tokenMint = Inl (InvariantFailed ERROR_INVALID_MINT))
       \<and> ((tokenMint = tokenAMint (poolState this) \<or> tokenMint = tokenBMint (poolState this))
            \<and> getMaxSwapOutAmount ext this outTokenMint = Inr maxOut
            \<and> computeInAmount (swapCurve this) capped source dest (if toB then AToB else BToA)
                 = Some maxIn
            \<and> tradeFeeDenominator (fees (poolState this)) \<noteq> 0
            \<and> ownerTradeFeeDenominator (fees (poolState this)) \<noteq> 0
            \<longrightarrow> capped \<noteq> dest \<and> (maxOut \<le> dest \<longrightarrow> capped \<le> dest - 1)
              \<and> getMaxSwapInAmount ext this tokenMint =
                  Inr (maxIn
                       - bn_quot (maxIn * ownerTradeFeeNumerator (fees (poolState this)))
                                 (ownerTradeFeeDenominator (fees (poolState this)))
                       - bn_quot (maxIn * tradeFeeNumerator (fees (poolState this)))
                                 (tradeFeeDenominator (fees (poolState this)))))"
  unfolding toB_def outTokenMint_def source_def dest_def capped_def
  by (auto simp add: getMaxSwapInAmount_def Let_def of_collaborator_def calculateAdminTradingFee_def
        calculateTradingFee_def bn_div_def)

text \<open>
  On the sample pool a mint outside the pair is rejected; for token A the maximum
  output 1100 equals the destination amount and is capped to 1099, the input is 2198 and
  the fees are 1 and 5.
\<close>

theorem max_swap_in_amount_witness:
  "getMaxSwapInAmount sample_ext sample_pool ''C'' = Inl (InvariantFailed ERROR_INVALID_MINT)
   \<and> getMaxSwapOutAmount sample_ext sample_pool ''B'' = Inr 1100
   \<and> computeInAmount (swapCurve sample_pool) 1099 1100 1100 AToB = Some 2198
   \<and> getMaxSwapInAmount sample_ext sample_pool ''A'' = Inr (2198 - 1 - 5)"
  using max_swap_in_amount [of "''C''" sample_pool sample_ext 0 0]
        max_swap_in_amount [of "''A''" sample_pool sample_ext 1100 2198]
  by (simp add: sample_defs code_defs)

subsection \<open>Single-sided withdrawals\<close>



subsection \<open>Zero denominators in the quotes\<close>

text \<open>
  C9 fails on the code. The balanced deposit paths of a stable pool derive the missing
  side with an unguarded division by a pool amount, and the single-sided withdrawal
  divides by the withdrawable amount of the vault and by its share supply: on a zero
  denominator the division of the big integers throws. The share conversions of the same
  class return 0 on the same denominators.
\<close>

theorem zero_denominator_evaluation:
  "getDepositQuote sample_ext one_sided_stable_pool 0 7 True 0 = Inl AssertionFailed
   \<and> getShareByAmount 7 (tokenBAmount (poolInfo one_sided_stable_pool))
        (poolLpSupply (accountsInfo one_sided_stable_pool)) None = Inr 0
   \<and> getWithdrawQuote sample_ext locked_vault_pool 10 50 (Some ''A'') = Inl AssertionFailed
   \<and> getAmountByShare 10 (vaultA locked_vault_pool) 0 None = Inr 0"
  by (simp add: getDepositQuote_def getWithdrawQuote_def sample_defs code_defs)

end
